theory Spec2Isabelle
  imports Complex_Main
begin

section \<open>Data model\<close>

text \<open>
  Modelled from the spec: types.ts is not part of the sources. The records below have
  the fields that game.ts reads and writes, with the types the data model of the spec
  gives them. The states are the strings
  "not ready", "ready", "running" and "ended" of game.ts; a PlayerRole is "admin" or
  "player", a UserRole is one of these or "host". Where two records have a field of the
  same name, or a name is a keyword here, the field carries a prefix: \<open>player_gameId\<close>,
  \<open>player_username\<close> and \<open>player_done\<close> of a player document, \<open>conf_startTime\<close> and
  \<open>conf_endTime\<close> of the confirmation that startGame and stopGame return.

  A JavaScript number is modelled by a rational: every finite double is one, and the
  settings of a game are stored as they arrive, so a count such as \<open>maxPlayers\<close> need not
  be whole. Arithmetic on rationals is exact where JavaScript rounds. NaN and the
  infinities are left out. \<open>Date.now()\<close> and the length of an array are whole numbers.

  An ObjectId is modelled by the number it encodes. \<open>new ObjectId()\<close> draws the next
  value of a generator kept in the world; \<open>new ObjectId(raw)\<close> parses a string of 24
  hexadecimal digits and throws on anything else.
\<close>

type_synonym ObjectId = nat

datatype GameState = not_ready | ready | running | ended

datatype PlayerRole = admin | player

datatype UserRole = RoleHost | RoleAdmin | RolePlayer

fun toUserRole :: "PlayerRole \<Rightarrow> UserRole" where
  "toUserRole admin = RoleAdmin"
| "toUserRole player = RolePlayer"

record GameSettings =
  name :: string
  duration :: rat
  startTime :: rat
  endTime :: rat
  ordered :: bool
  minPlayers :: rat
  maxPlayers :: rat
  joinMidGame :: bool
  numRequiredTasks :: rat

text \<open>
  A task: its \<open>_id\<close> (field \<open>task_id\<close>) and the rest of the record, which game.ts never
  reads (field \<open>task_body\<close>).
\<close>

record TaskSchema =
  task_id :: ObjectId
  task_body :: string

record GameSchema =
  tasks :: "TaskSchema list"
  settings :: GameSettings
  state :: GameState
  players :: "string list"
  admins :: "string list"
  host :: string

record PlayerSchema =
  player_gameId :: ObjectId
  player_username :: string
  points :: rat
  tasksSubmitted :: "string list"
  player_done :: bool

record UserToken =
  userid :: string
  username :: string
  gameId :: "ObjectId option"
  role :: "UserRole option"

text \<open>
  A token string, by what jsonwebtoken makes of it: either a payload signed with a key
  and carrying an expiry (in seconds), or a string that is no token at all. The claims
  \<open>iat\<close> and \<open>exp\<close> that jsonwebtoken adds to a payload are not fields of \<open>UserToken\<close>:
  game.ts never reads them.
\<close>

datatype Jwt = Signed UserToken string int | Malformed string

record AccessCredentials =
  accessToken :: Jwt
  refreshToken :: Jwt

record CreateGameConfirmation =
  creds :: AccessCredentials
  gameid :: string
  taskids :: "string list"

record UpdateGameStateConfirmation =
  conf_startTime :: rat
  conf_endTime :: rat

record APIGatewayProxyEventV2 =
  headers :: "(string \<times> string) list"
  event_rest :: string

text \<open>constants.ts is not part of the sources: its values are parameters.\<close>

record Constants =
  ACCESS_TOKEN_KEY :: string
  REFRESH_TOKEN_KEY :: string
  ADMIN_CODES :: "string list option"
  MAX_ADMINS :: rat
  MAX_GAMES :: rat
  SCHEDULER_GROUP_NAME :: string
  SCHEDULER_ROLE_ARN :: string

section \<open>Errors\<close>

text \<open>
  Every \<open>assert(cond, msg)\<close> that fails is \<open>AssertionError msg\<close>; the other constructors
  are what the libraries throw, and \<open>Unauthorized\<close> and \<open>Forbidden\<close> are the failures of
  \<open>verifyToken\<close>.
\<close>

datatype error =
    AssertionError string
  | BSONError
  | JsonWebTokenError
  | TokenExpiredError
  | Unauthorized
  | Forbidden
  | MongoServerError string
  | ResourceNotFoundException
  | SchedulerError string
  | RangeError

section \<open>The world the operations run in\<close>

datatype SchedulerCommand =
    CreateScheduleCommand string rat string string APIGatewayProxyEventV2 string
  | DeleteScheduleCommand string string

text \<open>
  The update documents game.ts builds, operator by operator: \<open>$set\<close> of \<open>state\<close>,
  \<open>settings.startTime\<close> and \<open>settings.endTime\<close>, \<open>$addToSet\<close> on \<open>players\<close> and
  \<open>admins\<close>, \<open>$pull\<close> on \<open>players\<close>.
\<close>

datatype UpdateOp =
    SetState GameState
  | SetStartTime rat
  | SetEndTime rat
  | AddToSetPlayers string
  | AddToSetAdmins string
  | PullPlayers string

text \<open>
  The two collections (documents with their \<open>_id\<close>, in insertion order), the update
  documents sent to the game collection with \<open>updateOne\<close> (each with the \<open>_id\<close> of its
  filter, in the order sent: what one \<open>updateOne\<close> changes in a document, it changes in
  one step), the ObjectId generator, the clock read by \<open>Date.now()\<close> and by
  jsonwebtoken, the number of client sessions started and not ended, and the scheduler
  service: the names of its schedules, the commands sent to it, and a fault (when set,
  every command sent fails with that message).
\<close>

record World =
  gameColl :: "(ObjectId \<times> GameSchema) list"
  playerColl :: "(ObjectId \<times> PlayerSchema) list"
  gameUpdates :: "(ObjectId \<times> UpdateOp list) list"
  nextObjectId :: nat
  clock :: int
  openSessions :: nat
  schedules :: "string list"
  schedulerCommands :: "SchedulerCommand list"
  schedulerFault :: "string option"

subsection \<open>ObjectId\<close>

definition hexDigit :: "char \<Rightarrow> nat option" where
  "hexDigit c =
     (let n = of_char c :: nat in
      if 48 \<le> n \<and> n \<le> 57 then Some (n - 48)
      else if 97 \<le> n \<and> n \<le> 102 then Some (n - 87)
      else if 65 \<le> n \<and> n \<le> 70 then Some (n - 55)
      else None)"

fun hexValue :: "nat \<Rightarrow> string \<Rightarrow> nat option" where
  "hexValue acc [] = Some acc"
| "hexValue acc (c # cs) =
     (case hexDigit c of None \<Rightarrow> None | Some d \<Rightarrow> hexValue (16 * acc + d) cs)"

definition parseObjectId :: "string \<Rightarrow> error + ObjectId" where
  "parseObjectId raw =
     (if length raw = 24 then
        (case hexValue 0 raw of None \<Rightarrow> Inl BSONError | Some n \<Rightarrow> Inr n)
      else Inl BSONError)"

definition hexChar :: "nat \<Rightarrow> char" where
  "hexChar d = (if d < 10 then char_of (48 + d) else char_of (87 + d))"

fun hexString :: "nat \<Rightarrow> nat \<Rightarrow> string" where
  "hexString 0 n = []"
| "hexString (Suc k) n = hexString k (n div 16) @ [hexChar (n mod 16)]"

definition toString :: "ObjectId \<Rightarrow> string" where
  "toString i = hexString 24 i"

definition newObjectId :: "World \<Rightarrow> ObjectId \<times> World" where
  "newObjectId w = (nextObjectId w, w\<lparr>nextObjectId := Suc (nextObjectId w)\<rparr>)"

subsection \<open>jsonwebtoken\<close>

text \<open>
  \<open>jwt.sign(payload, key, {expiresIn})\<close> with the lifetime in seconds ("15min" is 900,
  "3hr" is 10800), and \<open>jwt.verify(token, key)\<close>, which throws on a string that is no
  token, on a signature made with another key and on an expired token. The clock is in
  milliseconds, as \<open>Date.now()\<close>.
\<close>

definition jwt_sign :: "UserToken \<Rightarrow> string \<Rightarrow> int \<Rightarrow> int \<Rightarrow> Jwt" where
  "jwt_sign payload key expiresIn now = Signed payload key (now div 1000 + expiresIn)"

definition jwt_verify :: "Jwt \<Rightarrow> string \<Rightarrow> int \<Rightarrow> error + UserToken" where
  "jwt_verify token key now =
     (case token of
        Malformed s \<Rightarrow> Inl JsonWebTokenError
      | Signed payload k expiry \<Rightarrow>
          if k \<noteq> key then Inl JsonWebTokenError
          else if now div 1000 \<ge> expiry then Inl TokenExpiredError
          else Inr payload)"

subsection \<open>The document store\<close>

text \<open>
  Modelled from the spec: mongodb.ts is not part of the sources. \<open>getGameColl()\<close> and
  \<open>getPlayerColl()\<close> are the collections of games and of players of the document store,
  \<open>getClient()\<close> is its client, and the operations are those of the MongoDB driver that
  game.ts calls: find by id, insert one, update one (set, add to set, pull), delete one,
  delete many, and client sessions.

  A collection is the list of its documents, each with its \<open>_id\<close>. \<open>updateOne\<close> and
  \<open>deleteOne\<close> act on the first document with the given \<open>_id\<close>; \<open>updateOne\<close> counts a
  document as modified when the update changes it, and every update document sent is
  recorded in \<open>gameUpdates\<close>. \<open>insertOne\<close> draws the \<open>_id\<close> with
  \<open>new ObjectId()\<close> and refuses a duplicate key. Every write is acknowledged.
\<close>

record WriteResult =
  acknowledged :: bool
  insertedId :: "ObjectId option"
  modifiedCount :: nat
  deletedCount :: nat

definition findOne :: "ObjectId \<Rightarrow> (ObjectId \<times> 'a) list \<Rightarrow> 'a option" where
  "findOne i coll = map_of coll i"

fun replaceFirst :: "ObjectId \<Rightarrow> 'a \<Rightarrow> (ObjectId \<times> 'a) list \<Rightarrow> (ObjectId \<times> 'a) list" where
  "replaceFirst i d [] = []"
| "replaceFirst i d ((k, x) # rest) =
     (if k = i then (k, d) # rest else (k, x) # replaceFirst i d rest)"

fun removeFirst :: "ObjectId \<Rightarrow> (ObjectId \<times> 'a) list \<Rightarrow> (ObjectId \<times> 'a) list" where
  "removeFirst i [] = []"
| "removeFirst i ((k, x) # rest) =
     (if k = i then rest else (k, x) # removeFirst i rest)"

definition addToSet :: "string \<Rightarrow> string list \<Rightarrow> string list" where
  "addToSet u xs = (if u \<in> set xs then xs else xs @ [u])"

fun applyOp :: "UpdateOp \<Rightarrow> GameSchema \<Rightarrow> GameSchema" where
  "applyOp (SetState s) g = g\<lparr>state := s\<rparr>"
| "applyOp (SetStartTime t) g = g\<lparr>settings := (settings g)\<lparr>startTime := t\<rparr>\<rparr>"
| "applyOp (SetEndTime t) g = g\<lparr>settings := (settings g)\<lparr>endTime := t\<rparr>\<rparr>"
| "applyOp (AddToSetPlayers u) g = g\<lparr>players := addToSet u (players g)\<rparr>"
| "applyOp (AddToSetAdmins u) g = g\<lparr>admins := addToSet u (admins g)\<rparr>"
| "applyOp (PullPlayers u) g = g\<lparr>players := removeAll u (players g)\<rparr>"

definition applyUpdate :: "UpdateOp list \<Rightarrow> GameSchema \<Rightarrow> GameSchema" where
  "applyUpdate update g = fold applyOp update g"

definition gameColl_insertOne :: "GameSchema \<Rightarrow> World \<Rightarrow> (error + WriteResult) \<times> World" where
  "gameColl_insertOne d w =
     (let (i, w1) = newObjectId w in
      if i \<in> set (map fst (gameColl w1))
      then (Inl (MongoServerError ''E11000 duplicate key error''), w1)
      else (Inr \<lparr>acknowledged = True, insertedId = Some i,
                 modifiedCount = 0, deletedCount = 0\<rparr>,
            w1\<lparr>gameColl := gameColl w1 @ [(i, d)]\<rparr>))"

definition playerColl_insertOne ::
  "PlayerSchema \<Rightarrow> World \<Rightarrow> (error + WriteResult) \<times> World" where
  "playerColl_insertOne d w =
     (let (i, w1) = newObjectId w in
      if i \<in> set (map fst (playerColl w1))
      then (Inl (MongoServerError ''E11000 duplicate key error''), w1)
      else (Inr \<lparr>acknowledged = True, insertedId = Some i,
                 modifiedCount = 0, deletedCount = 0\<rparr>,
            w1\<lparr>playerColl := playerColl w1 @ [(i, d)]\<rparr>))"

definition gameColl_updateOne :: "ObjectId \<Rightarrow> UpdateOp list \<Rightarrow> World \<Rightarrow> WriteResult \<times> World" where
  "gameColl_updateOne i update w =
     (let w1 = w\<lparr>gameUpdates := gameUpdates w @ [(i, update)]\<rparr> in
      case findOne i (gameColl w) of
        None \<Rightarrow>
          (\<lparr>acknowledged = True, insertedId = None, modifiedCount = 0, deletedCount = 0\<rparr>, w1)
      | Some d \<Rightarrow>
          (\<lparr>acknowledged = True, insertedId = None,
            modifiedCount = (if applyUpdate update d = d then 0 else 1), deletedCount = 0\<rparr>,
           w1\<lparr>gameColl := replaceFirst i (applyUpdate update d) (gameColl w)\<rparr>))"

definition gameColl_deleteOne :: "ObjectId \<Rightarrow> World \<Rightarrow> WriteResult \<times> World" where
  "gameColl_deleteOne i w =
     (\<lparr>acknowledged = True, insertedId = None, modifiedCount = 0,
       deletedCount = (if i \<in> set (map fst (gameColl w)) then 1 else 0)\<rparr>,
      w\<lparr>gameColl := removeFirst i (gameColl w)\<rparr>)"

definition playerColl_deleteMany :: "ObjectId \<Rightarrow> World \<Rightarrow> WriteResult \<times> World" where
  "playerColl_deleteMany gid w =
     (\<lparr>acknowledged = True, insertedId = None, modifiedCount = 0,
       deletedCount = length (filter (\<lambda>(k, p). player_gameId p = gid) (playerColl w))\<rparr>,
      w\<lparr>playerColl := filter (\<lambda>(k, p). player_gameId p \<noteq> gid) (playerColl w)\<rparr>)"

text \<open>
  Client sessions. \<open>session.withTransaction(fn)\<close> runs the callback and commits, or
  aborts and rethrows what the callback threw. The collection calls inside the callbacks
  of game.ts are made without the session, so they are applied as they are made and
  neither the commit nor the abort changes the collections.
\<close>

definition startSession :: "World \<Rightarrow> World" where
  "startSession w = w\<lparr>openSessions := Suc (openSessions w)\<rparr>"

definition endSession :: "World \<Rightarrow> World" where
  "endSession w = w\<lparr>openSessions := openSessions w - 1\<rparr>"

definition withTransaction ::
  "(World \<Rightarrow> (error + unit) \<times> World) \<Rightarrow> World \<Rightarrow> (error + unit) \<times> World" where
  "withTransaction fn w = (case fn w of (Inl e, w1) \<Rightarrow> (Inl e, w1) | (Inr u, w1) \<Rightarrow> (Inr u, w1))"

text \<open>
  Requests are served independently and meet in the document store only. joinGame and
  deleteGame read the game and write later, in their transaction: \<open>Interference\<close> is what
  other requests have committed to the two collections in between. A request running
  alone has the identity here.
\<close>

type_synonym Interference =
  "(ObjectId \<times> GameSchema) list \<times> (ObjectId \<times> PlayerSchema) list \<Rightarrow>
   (ObjectId \<times> GameSchema) list \<times> (ObjectId \<times> PlayerSchema) list"

definition interleave :: "Interference \<Rightarrow> World \<Rightarrow> World" where
  "interleave others w =
     (let (g, p) = others (gameColl w, playerColl w)
      in w\<lparr>gameColl := g, playerColl := p\<rparr>)"

subsection \<open>The scheduler service\<close>

text \<open>
  \<open>schedulerClient.send(command)\<close>: the command is recorded; the service fails when it
  is at fault, when a schedule of that name exists already (create), or when none does
  (delete).
\<close>

definition scheduler_send :: "SchedulerCommand \<Rightarrow> World \<Rightarrow> (error + unit) \<times> World" where
  "scheduler_send command w =
     (let w1 = w\<lparr>schedulerCommands := schedulerCommands w @ [command]\<rparr> in
      case schedulerFault w of
        Some m \<Rightarrow> (Inl (SchedulerError m), w1)
      | None \<Rightarrow>
          (case command of
             CreateScheduleCommand nm fireAt arn roleArn input grp \<Rightarrow>
               if nm \<in> set (schedules w) then (Inl (SchedulerError ''ConflictException''), w1)
               else (Inr (), w1\<lparr>schedules := schedules w @ [nm]\<rparr>)
           | DeleteScheduleCommand nm grp \<Rightarrow>
               if nm \<in> set (schedules w)
               then (Inr (), w1\<lparr>schedules := removeAll nm (schedules w)\<rparr>)
               else (Inl ResourceNotFoundException, w1)))"

subsection \<open>auth.ts\<close>

text \<open>
  Modelled from the spec: \<open>verifyToken\<close> of auth.ts, which is not part of the sources.
  It decodes the credential and validates its signature and expiry (Unauthorized
  otherwise), and fails with Forbidden when the decoded \<open>gameId\<close> is not the target game
  or the decoded \<open>role\<close> is not among the allowed roles. On success it returns the
  decoded identity.
\<close>

definition verifyToken ::
  "Constants \<Rightarrow> Jwt \<Rightarrow> ObjectId \<Rightarrow> UserRole list \<Rightarrow> World \<Rightarrow> error + UserToken" where
  "verifyToken c token gid allowedRoles w =
     (case jwt_verify token (ACCESS_TOKEN_KEY c) (clock w) of
        Inl e \<Rightarrow> Inl Unauthorized
      | Inr decoded \<Rightarrow>
          (case (gameId decoded, role decoded) of
             (Some g, Some r) \<Rightarrow>
               if g = gid \<and> r \<in> set allowedRoles then Inr decoded else Inl Forbidden
           | _ \<Rightarrow> Inl Forbidden))"

section \<open>game.ts\<close>

subsection \<open>upgradeCredentials\<close>

definition upgradeCredentials ::
  "Constants \<Rightarrow> int \<Rightarrow> UserToken \<Rightarrow> ObjectId \<Rightarrow> UserRole \<Rightarrow> AccessCredentials" where
  "upgradeCredentials c now token gid r =
     (let creds0 = \<lparr>userid = userid token, username = username token,
                     gameId = None, role = None\<rparr>;
          creds1 = creds0\<lparr>gameId := Some gid\<rparr>;
          creds2 = creds1\<lparr>role := Some r\<rparr>;
          access_token = jwt_sign creds2 (ACCESS_TOKEN_KEY c) 900 now;
          refresh_token = jwt_sign creds2 (REFRESH_TOKEN_KEY c) 10800 now
      in \<lparr>accessToken = access_token, refreshToken = refresh_token\<rparr>)"

subsection \<open>createGame\<close>

fun assignTaskIds :: "TaskSchema list \<Rightarrow> World \<Rightarrow> TaskSchema list \<times> World" where
  "assignTaskIds [] w = ([], w)"
| "assignTaskIds (t # ts) w =
     (let (i, w1) = newObjectId w;
          (ts', w2) = assignTaskIds ts w1
      in (t\<lparr>task_id := i\<rparr> # ts', w2))"

definition createGame ::
  "Constants \<Rightarrow> Jwt \<Rightarrow> GameSettings \<Rightarrow> TaskSchema list \<Rightarrow> World \<Rightarrow>
   (error + CreateGameConfirmation) \<times> World" where
  "createGame c token settings0 tasks0 w =
     (if \<not> of_nat (length (gameColl w)) < MAX_GAMES c
      then (Inl (AssertionError ''Max games reached''), w)
      else
        case jwt_verify token (ACCESS_TOKEN_KEY c) (clock w) of
          Inl e \<Rightarrow> (Inl e, w)
        | Inr decodedToken \<Rightarrow>
            let (tasks1, w1) = assignTaskIds tasks0 w;
                taskids1 = map (\<lambda>t. toString (task_id t)) tasks1;
                settings1 = settings0\<lparr>endTime := 0\<rparr>;
                settings2 = (if duration settings1 \<noteq> 0
                             then settings1\<lparr>endTime := startTime settings1 + duration settings1\<rparr>
                             else settings1)
            in
              case gameColl_insertOne
                     \<lparr>tasks = tasks1, settings = settings2,
                      state = (if minPlayers settings2 = 0 then ready else not_ready),
                      players = [], admins = [], host = username decodedToken\<rparr> w1 of
                (Inl e, w2) \<Rightarrow> (Inl e, w2)
              | (Inr res, w2) \<Rightarrow>
                  (case (acknowledged res, insertedId res) of
                     (True, Some newId) \<Rightarrow>
                       (Inr \<lparr>creds = upgradeCredentials c (clock w2) decodedToken newId RoleHost,
                             gameid = toString newId, taskids = taskids1\<rparr>, w2)
                   | _ \<Rightarrow> (Inl (AssertionError ''Create operation unsuccessful''), w2)))"

subsection \<open>joinGame\<close>

definition adminCodeOk :: "Constants \<Rightarrow> string option \<Rightarrow> bool" where
  "adminCodeOk c code =
     (case code of
        None \<Rightarrow> False
      | Some cd \<Rightarrow>
          cd \<noteq> [] \<and> (case ADMIN_CODES c of None \<Rightarrow> False | Some adminCodes \<Rightarrow> cd \<in> set adminCodes))"

text \<open>The callback given to \<open>session.withTransaction\<close> in joinGame.\<close>

definition joinGame_callback ::
  "UserToken \<Rightarrow> ObjectId \<Rightarrow> PlayerRole \<Rightarrow> GameSchema \<Rightarrow> World \<Rightarrow> (error + unit) \<times> World" where
  "joinGame_callback decodedToken gid r game w =
     (case
        (if r = admin then (Inr [AddToSetAdmins (username decodedToken)], w)
         else
           case playerColl_insertOne
                  \<lparr>player_gameId = gid, player_username = username decodedToken, points = 0,
                   tasksSubmitted = [],
                   player_done = (if numRequiredTasks (settings game) = 0 then True else False)\<rparr> w of
             (Inl e, w1) \<Rightarrow> (Inl e, w1)
           | (Inr playerRes, w1) \<Rightarrow>
               if \<not> (acknowledged playerRes \<and> insertedId playerRes \<noteq> None)
               then (Inl (AssertionError ''Create operation unsuccessful''), w1)
               else
                 (Inr ((if state game = not_ready
                           \<and> of_nat (length (players game)) = minPlayers (settings game) - 1
                        then [SetState ready] else [])
                       @ [AddToSetPlayers (username decodedToken)]), w1))
      of
        (Inl e, w1) \<Rightarrow> (Inl e, w1)
      | (Inr update, w1) \<Rightarrow>
          let (gameRes, w2) = gameColl_updateOne gid update w1 in
          if \<not> (acknowledged gameRes \<and> modifiedCount gameRes = 1)
          then (Inl (AssertionError ''Operation unsuccessful''), w2)
          else (Inr (), w2))"

definition joinGame ::
  "Interference \<Rightarrow> Constants \<Rightarrow> Jwt \<Rightarrow> string \<Rightarrow> PlayerRole \<Rightarrow> string option \<Rightarrow> World \<Rightarrow>
   (error + AccessCredentials) \<times> World" where
  "joinGame others c token rawGameId r code w =
     (case parseObjectId rawGameId of
        Inl e \<Rightarrow> (Inl e, w)
      | Inr gid \<Rightarrow>
          if \<not> (r \<noteq> admin \<or> adminCodeOk c code)
          then (Inl (AssertionError ''Invalid admin creds''), w)
          else
            case jwt_verify token (ACCESS_TOKEN_KEY c) (clock w) of
              Inl e \<Rightarrow> (Inl e, w)
            | Inr decodedToken \<Rightarrow>
                (case findOne gid (gameColl w) of
                   None \<Rightarrow> (Inl (AssertionError ''Invalid game ID''), w)
                 | Some game \<Rightarrow>
                     if \<not> (username decodedToken \<noteq> host game
                            \<and> username decodedToken \<notin> set (players game)
                            \<and> username decodedToken \<notin> set (admins game))
                     then (Inl (AssertionError ''User already in game''), w)
                     else if \<not> (r \<noteq> player
                                 \<or> of_nat (length (players game)) < maxPlayers (settings game))
                     then (Inl (AssertionError ''Maximum player capacity reached for this game''), w)
                     else if \<not> (r \<noteq> admin \<or> of_nat (length (admins game)) < MAX_ADMINS c)
                     then (Inl (AssertionError ''Maximum admin capacity reached for this game''), w)
                     else if \<not> (r = admin \<or> state game \<noteq> ended)
                     then (Inl (AssertionError ''This game has already ended; unable to join''), w)
                     else
                       case withTransaction (joinGame_callback decodedToken gid r game)
                              (startSession (interleave others w)) of
                         (Inl e, w1) \<Rightarrow> (Inl e, w1)
                       | (Inr u, w1) \<Rightarrow>
                           let w2 = endSession w1 in
                           (Inr (upgradeCredentials c (clock w2) decodedToken gid (toUserRole r)),
                            w2)))"

subsection \<open>leaveGame\<close>

definition leaveGame ::
  "Constants \<Rightarrow> Jwt \<Rightarrow> string \<Rightarrow> World \<Rightarrow> (error + unit) \<times> World" where
  "leaveGame c token rawGameId w =
     (case parseObjectId rawGameId of
        Inl e \<Rightarrow> (Inl e, w)
      | Inr gid \<Rightarrow>
          (case verifyToken c token gid [RolePlayer, RoleAdmin] w of
             Inl e \<Rightarrow> (Inl e, w)
           | Inr decodedToken \<Rightarrow>
               let (result, w1) = gameColl_updateOne gid [PullPlayers (username decodedToken)] w in
               if \<not> (acknowledged result \<and> modifiedCount result = 1)
               then (Inl (AssertionError ''No player removed''), w1)
               else (Inr (), w1)))"

subsection \<open>startGame\<close>

text \<open>\<open>headers[k] = v\<close> on the headers of an event.\<close>

fun setHeader :: "(string \<times> string) list \<Rightarrow> string \<Rightarrow> string \<Rightarrow> (string \<times> string) list" where
  "setHeader [] k v = [(k, v)]"
| "setHeader ((k', v') # rest) k v =
     (if k' = k then (k, v) # rest else (k', v') # setHeader rest k v)"

definition startGame ::
  "Constants \<Rightarrow> Jwt \<Rightarrow> string \<Rightarrow> string option \<Rightarrow> APIGatewayProxyEventV2 option \<Rightarrow> World \<Rightarrow>
   (error + UpdateGameStateConfirmation) \<times> World" where
  "startGame c token rawGameId gameFunctionArn stopGameEvent w =
     (case parseObjectId rawGameId of
        Inl e \<Rightarrow> (Inl e, w)
      | Inr gid \<Rightarrow>
          (case verifyToken c token gid [RoleHost, RoleAdmin] w of
             Inl e \<Rightarrow> (Inl e, w)
           | Inr decodedToken \<Rightarrow>
               (case findOne gid (gameColl w) of
                  None \<Rightarrow> (Inl (AssertionError ''Invalid game ID''), w)
                | Some game \<Rightarrow>
                    if \<not> state game = ready then (Inl (AssertionError ''Invalid game state''), w)
                    else
                      let currentTime = of_int (clock w);
                          endTime1 = (if duration (settings game) = 0 then 0
                                      else currentTime + duration (settings game) * 1000);
                          (result, w1) =
                            gameColl_updateOne gid
                              [SetState running, SetStartTime currentTime, SetEndTime endTime1] w
                      in
                        if \<not> (acknowledged result \<and> modifiedCount result = 1)
                        then (Inl (AssertionError ''Failed to start game''), w1)
                        else if duration (settings game) > 0 then
                          (case gameFunctionArn of
                             None \<Rightarrow>
                               (Inl (AssertionError
                                 ''gameFunctionArn must be specified if the game has a duration > 0.''), w1)
                           | Some arn \<Rightarrow>
                               if arn = [] then
                                 (Inl (AssertionError
                                   ''gameFunctionArn must be specified if the game has a duration > 0.''), w1)
                               else
                                 (case stopGameEvent of
                                    None \<Rightarrow>
                                      (Inl (AssertionError
                                        ''stopGameEvent must be specified if the game has a duration > 0.''), w1)
                                  | Some ev \<Rightarrow>
                                      let ev1 = ev\<lparr>headers :=
                                                  setHeader (headers ev) ''source'' ''scheduler''\<rparr>
                                      in
                                        if \<not> (- 8640000000000000 \<le> endTime1
                                               \<and> endTime1 \<le> 8640000000000000)
                                        then (Inl RangeError, w1)
                                        else
                                          (case scheduler_send
                                                  (CreateScheduleCommand (''end-game-'' @ rawGameId)
                                                     endTime1 arn (SCHEDULER_ROLE_ARN c) ev1
                                                     (SCHEDULER_GROUP_NAME c)) w1 of
                                             (Inl e, w2) \<Rightarrow> (Inl e, w2)
                                           | (Inr u, w2) \<Rightarrow>
                                               (Inr \<lparr>conf_startTime = currentTime,
                                                     conf_endTime = endTime1\<rparr>, w2))))
                        else (Inr \<lparr>conf_startTime = currentTime, conf_endTime = endTime1\<rparr>, w1))))"

subsection \<open>stopGame\<close>

definition stopGame ::
  "Constants \<Rightarrow> Jwt \<Rightarrow> string \<Rightarrow> bool option \<Rightarrow> World \<Rightarrow>
   (error + UpdateGameStateConfirmation) \<times> World" where
  "stopGame c token rawGameId fromSchedule w =
     (case parseObjectId rawGameId of
        Inl e \<Rightarrow> (Inl e, w)
      | Inr gid \<Rightarrow>
          (case verifyToken c token gid [RoleHost, RoleAdmin] w of
             Inl e \<Rightarrow> (Inl e, w)
           | Inr decodedToken \<Rightarrow>
               (case findOne gid (gameColl w) of
                  None \<Rightarrow> (Inl (AssertionError ''Invalid game ID''), w)
                | Some game \<Rightarrow>
                    if \<not> state game = running then (Inl (AssertionError ''Invalid game state''), w)
                    else
                      let currentTime = of_int (clock w);
                          (result, w1) =
                            gameColl_updateOne gid [SetState ended, SetEndTime currentTime] w
                      in
                        if \<not> (acknowledged result \<and> modifiedCount result = 1)
                        then (Inl (AssertionError ''Failed to end game''), w1)
                        else
                          let w2 = (if fromSchedule = Some True then w1
                                    else
                                      case scheduler_send
                                             (DeleteScheduleCommand (''end-game-'' @ rawGameId)
                                                (SCHEDULER_GROUP_NAME c)) w1 of
                                        (Inl e, w') \<Rightarrow> w'
                                      | (Inr u, w') \<Rightarrow> w')
                          in (Inr \<lparr>conf_startTime = startTime (settings game),
                                   conf_endTime = currentTime\<rparr>, w2))))"

subsection \<open>restartGame\<close>

definition restartGame ::
  "Constants \<Rightarrow> Jwt \<Rightarrow> string \<Rightarrow> World \<Rightarrow> (error + CreateGameConfirmation) \<times> World" where
  "restartGame c token rawGameId w =
     (case parseObjectId rawGameId of
        Inl e \<Rightarrow> (Inl e, w)
      | Inr gid \<Rightarrow>
          (case verifyToken c token gid [RoleHost, RoleAdmin] w of
             Inl e \<Rightarrow> (Inl e, w)
           | Inr decodedToken \<Rightarrow>
               (case findOne gid (gameColl w) of
                  None \<Rightarrow> (Inl (AssertionError ''Invalid game ID''), w)
                | Some game \<Rightarrow>
                    if \<not> state game = ended
                    then (Inl (AssertionError (''Game hasn'' @ [CHR 0x27] @ ''t ended, unable to restart'')), w)
                    else createGame c token (settings game) (tasks game) w)))"

subsection \<open>deleteGame\<close>

text \<open>The callback given to \<open>session.withTransaction\<close> in deleteGame.\<close>

definition deleteGame_callback :: "ObjectId \<Rightarrow> World \<Rightarrow> (error + unit) \<times> World" where
  "deleteGame_callback gid w =
     (let (gameDeletion, w1) = gameColl_deleteOne gid w in
      if \<not> (acknowledged gameDeletion \<and> deletedCount gameDeletion = 1)
      then (Inl (AssertionError ''Unable to complete delete operation''), w1)
      else
        let (playerDeletion, w2) = playerColl_deleteMany gid w1 in
        if \<not> acknowledged playerDeletion
        then (Inl (AssertionError ''Unable to complete delete operation''), w2)
        else (Inr (), w2))"

definition deleteGame ::
  "Interference \<Rightarrow> Constants \<Rightarrow> Jwt \<Rightarrow> string \<Rightarrow> World \<Rightarrow> (error + GameSchema) \<times> World" where
  "deleteGame others c token rawGameId w =
     (case parseObjectId rawGameId of
        Inl e \<Rightarrow> (Inl e, w)
      | Inr gid \<Rightarrow>
          (case verifyToken c token gid [RoleHost, RoleAdmin] w of
             Inl e \<Rightarrow> (Inl e, w)
           | Inr decodedToken \<Rightarrow>
               (case findOne gid (gameColl w) of
                  None \<Rightarrow> (Inl (AssertionError ''Invalid game ID''), w)
                | Some game \<Rightarrow>
                    if \<not> state game \<noteq> running
                    then (Inl (AssertionError ''Game is still running, unable to delete''), w)
                    else
                      case withTransaction (deleteGame_callback gid)
                             (startSession (interleave others w)) of
                        (Inl e, w1) \<Rightarrow> (Inl e, w1)
                      | (Inr u, w1) \<Rightarrow> (Inr game, endSession w1))))"

subsection \<open>Sequences of requests\<close>


section \<open>Scenarios\<close>

text \<open>Concrete constants, credentials, games and worlds on which the theorems are run.\<close>

definition exConstants :: Constants where
  "exConstants =
     \<lparr>ACCESS_TOKEN_KEY = ''ak'', REFRESH_TOKEN_KEY = ''rk'', ADMIN_CODES = Some [''code''],
      MAX_ADMINS = 2, MAX_GAMES = 3, SCHEDULER_GROUP_NAME = ''grp'',
      SCHEDULER_ROLE_ARN = ''role''\<rparr>"

definition exSettings :: GameSettings where
  "exSettings =
     \<lparr>name = ''g'', duration = 0, startTime = 0, endTime = 0, ordered = False,
      minPlayers = 1, maxPlayers = 1, joinMidGame = False, numRequiredTasks = 0\<rparr>"

definition exIdentity :: "string \<Rightarrow> UserToken" where
  "exIdentity u = \<lparr>userid = u, username = u, gameId = None, role = None\<rparr>"

definition exScoped :: "string \<Rightarrow> ObjectId \<Rightarrow> UserRole \<Rightarrow> UserToken" where
  "exScoped u g r = \<lparr>userid = u, username = u, gameId = Some g, role = Some r\<rparr>"

definition exGame :: "GameState \<Rightarrow> string list \<Rightarrow> string list \<Rightarrow> GameSchema" where
  "exGame st ps ads =
     \<lparr>tasks = [\<lparr>task_id = 1, task_body = ''t''\<rparr>], settings = exSettings, state = st,
      players = ps, admins = ads, host = ''alice''\<rparr>"

definition exWorld :: "(ObjectId \<times> GameSchema) list \<Rightarrow> World" where
  "exWorld gs =
     \<lparr>gameColl = gs, playerColl = [], gameUpdates = [], nextObjectId = 10, clock = 0, openSessions = 0,
      schedules = [], schedulerCommands = [], schedulerFault = None\<rparr>"

definition exRawId :: string where
  "exRawId = ''000000000000000000000005''"

definition exEndedWorld :: World where
  "exEndedWorld = exWorld [(5, exGame ended [] [''carol''])]"

definition exRestartedGame :: GameSchema where
  "exRestartedGame =
     \<lparr>tasks = [\<lparr>task_id = 10, task_body = ''t''\<rparr>], settings = exSettings, state = not_ready,
      players = [], admins = [], host = ''carol''\<rparr>"

definition exHostToken :: Jwt where
  "exHostToken = Signed (exScoped ''alice'' 5 RoleHost) ''ak'' 900"

definition exFaultyWorld :: World where
  "exFaultyWorld = (exWorld [(5, exGame running [''bob''] [])])\<lparr>schedulerFault := Some ''AccessDenied''\<rparr>"







definition exCarolToken :: Jwt where
  "exCarolToken = Signed (exIdentity ''carol'') ''ak'' 900"

text \<open>
  What a deleteGame of game 5 that commits between another request's read and its
  transaction has written.
\<close>

definition exConcurrentDelete :: Interference where
  "exConcurrentDelete =
     (\<lambda>(g, p). (removeFirst 5 g, filter (\<lambda>(k, pl). player_gameId pl \<noteq> 5) p))"

definition exAdminToken :: Jwt where
  "exAdminToken = Signed (exScoped ''carol'' 5 RoleAdmin) ''ak'' 900"

section \<open>Properties\<close>

subsection \<open>Auxiliary facts\<close>

lemma exRawId_parse: "parseObjectId exRawId = Inr 5"
  by (simp add: parseObjectId_def exRawId_def hexDigit_def)

lemma snd_assignTaskIds:
  "snd (assignTaskIds ts w) = w\<lparr>nextObjectId := nextObjectId w + length ts\<rparr>"
  by (induction ts arbitrary: w) (simp_all add: newObjectId_def split_beta Let_def)

lemma upt_shift: "[n ..< n + Suc k] = n # [Suc n ..< Suc n + k]"
  by (subst upt_rec) simp

lemma assignTaskIds_ids:
  "map task_id (fst (assignTaskIds ts w)) = [nextObjectId w ..< nextObjectId w + length ts]"
proof (induction ts arbitrary: w)
  case Nil
  then show ?case by simp
next
  case (Cons t ts)
  have "map task_id (fst (assignTaskIds (t # ts) w)) =
        nextObjectId w #
        map task_id (fst (assignTaskIds ts (w\<lparr>nextObjectId := Suc (nextObjectId w)\<rparr>)))"
    by (simp add: newObjectId_def split_beta Let_def)
  also have "\<dots> = nextObjectId w # [Suc (nextObjectId w) ..< Suc (nextObjectId w) + length ts]"
    by (simp only: Cons.IH) simp
  also have "\<dots> = [nextObjectId w ..< nextObjectId w + Suc (length ts)]"
    by (rule upt_shift [symmetric])
  finally show ?case by (simp only: length_Cons)
qed

lemma assignTaskIds_body: "map task_body (fst (assignTaskIds ts w)) = map task_body ts"
  by (induction ts arbitrary: w) (simp_all add: newObjectId_def split_beta Let_def)

text \<open>What a successful createGame has done.\<close>

lemma createGame_Inr:
  assumes "createGame c token s ts w = (Inr conf, w')"
  shows "\<exists>decoded.
           jwt_verify token (ACCESS_TOKEN_KEY c) (clock w) = Inr decoded \<and>
           w' = w\<lparr>nextObjectId := Suc (nextObjectId w + length ts),
                   gameColl := gameColl w @
                     [(nextObjectId w + length ts,
                       \<lparr>tasks = fst (assignTaskIds ts w),
                        settings = s\<lparr>endTime :=
                          (if duration s \<noteq> 0 then startTime s + duration s else 0)\<rparr>,
                        state = (if minPlayers s = 0 then ready else not_ready),
                        players = [], admins = [], host = username decoded\<rparr>)]\<rparr> \<and>
           conf = \<lparr>creds = upgradeCredentials c (clock w) decoded
                             (nextObjectId w + length ts) RoleHost,
                   gameid = toString (nextObjectId w + length ts),
                   taskids = map (\<lambda>t. toString (task_id t)) (fst (assignTaskIds ts w))\<rparr>"
proof -
  obtain tasks1 w1 where a: "assignTaskIds ts w = (tasks1, w1)"
    by (cases "assignTaskIds ts w")
  have w1: "w1 = w\<lparr>nextObjectId := nextObjectId w + length ts\<rparr>"
    using snd_assignTaskIds [of ts w] a by simp
  show ?thesis
    using assms unfolding createGame_def gameColl_insertOne_def newObjectId_def a w1
    by (auto simp: Let_def split: if_splits sum.splits)
qed

subsection \<open>Credentials\<close>

text \<open>
  C9. Two identities with the same userid and username, whatever game scope (gameId,
  role) each carries, are upgraded with the same gameId and role arguments to the same
  credentials; the claims signed into the access and the refresh token are the userid
  and username of the identity and the gameId and role passed, nothing else.
\<close>

theorem upgradeCredentials_ignores_ambient_scope:
  assumes "userid t1 = userid t2" and "username t1 = username t2"
  shows "upgradeCredentials c now t1 gid r = upgradeCredentials c now t2 gid r \<and>
         accessToken (upgradeCredentials c now t1 gid r) =
           Signed \<lparr>userid = userid t1, username = username t1, gameId = Some gid, role = Some r\<rparr>
             (ACCESS_TOKEN_KEY c) (now div 1000 + 900) \<and>
         refreshToken (upgradeCredentials c now t1 gid r) =
           Signed \<lparr>userid = userid t1, username = username t1, gameId = Some gid, role = Some r\<rparr>
             (REFRESH_TOKEN_KEY c) (now div 1000 + 10800)"
  using assms by (simp add: upgradeCredentials_def jwt_sign_def Let_def)

theorem upgradeCredentials_ignores_ambient_scope_witness:
  "userid (exIdentity ''bob'') = userid (exScoped ''bob'' 7 RoleHost) \<and>
   username (exIdentity ''bob'') = username (exScoped ''bob'' 7 RoleHost) \<and>
   upgradeCredentials exConstants 0 (exIdentity ''bob'') 5 RolePlayer =
     upgradeCredentials exConstants 0 (exScoped ''bob'' 7 RoleHost) 5 RolePlayer \<and>
   accessToken (upgradeCredentials exConstants 0 (exIdentity ''bob'') 5 RolePlayer) =
     Signed (exScoped ''bob'' 5 RolePlayer) ''ak'' 900"
proof -
  have h1: "userid (exIdentity ''bob'') = userid (exScoped ''bob'' 7 RoleHost)"
    by (simp add: exScoped_def exIdentity_def)
  have h2: "username (exIdentity ''bob'') = username (exScoped ''bob'' 7 RoleHost)"
    by (simp add: exScoped_def exIdentity_def)
  note run = upgradeCredentials_ignores_ambient_scope [OF h1 h2, of exConstants 0 5 RolePlayer]
  have h3: "accessToken (upgradeCredentials exConstants 0 (exIdentity ''bob'') 5 RolePlayer) =
              Signed (exScoped ''bob'' 5 RolePlayer) ''ak'' 900"
    using conjunct1 [OF conjunct2 [OF run]]
    by (simp add: exScoped_def exIdentity_def exConstants_def)
  show ?thesis
    using h1 h2 h3 conjunct1 [OF run] by blast
qed

subsection \<open>createGame\<close>

text \<open>
  A createGame on a valid input succeeds: fewer games than \<open>MAX_GAMES\<close> are stored, the
  token verifies, and the ObjectId drawn for the game is not the \<open>_id\<close> of a stored game.
\<close>

lemma createGame_valid:
  assumes "of_nat (length (gameColl w)) < MAX_GAMES c"
    and "jwt_verify token (ACCESS_TOKEN_KEY c) (clock w) = Inr decoded"
    and "nextObjectId w + length ts \<notin> set (map fst (gameColl w))"
  shows "createGame c token s ts w =
           (Inr \<lparr>creds = upgradeCredentials c (clock w) decoded
                             (nextObjectId w + length ts) RoleHost,
                  gameid = toString (nextObjectId w + length ts),
                  taskids = map (\<lambda>t. toString (task_id t)) (fst (assignTaskIds ts w))\<rparr>,
            w\<lparr>nextObjectId := Suc (nextObjectId w + length ts),
               gameColl := gameColl w @
                 [(nextObjectId w + length ts,
                   \<lparr>tasks = fst (assignTaskIds ts w),
                    settings = s\<lparr>endTime :=
                      (if duration s \<noteq> 0 then startTime s + duration s else 0)\<rparr>,
                    state = (if minPlayers s = 0 then ready else not_ready),
                    players = [], admins = [], host = username decoded\<rparr>)]\<rparr>)"
proof -
  obtain tasks1 w1 where a: "assignTaskIds ts w = (tasks1, w1)"
    by (cases "assignTaskIds ts w")
  have w1: "w1 = w\<lparr>nextObjectId := nextObjectId w + length ts\<rparr>"
    using snd_assignTaskIds [of ts w] a by simp
  show ?thesis
    using assms unfolding createGame_def gameColl_insertOne_def newObjectId_def a w1
    by (simp add: Let_def)
qed

text \<open>
  C8. On every valid input createGame succeeds and inserts one game, the one its
  confirmation names, whose state is "ready" when \<open>settings.minPlayers\<close> is 0 and
  "not ready" otherwise; and whenever createGame succeeds, the state of the game it has
  inserted is "ready" if and only if \<open>settings.minPlayers\<close> is 0, and "not ready" otherwise.
  The scenarios create a game with \<open>minPlayers = 0\<close>, which is ready, and one with
  \<open>minPlayers = 1\<close>, which is not.
\<close>

theorem createGame_initial_state:
  "(of_nat (length (gameColl w)) < MAX_GAMES c \<and>
    jwt_verify token (ACCESS_TOKEN_KEY c) (clock w) = Inr decoded \<and>
    nextObjectId w + length ts \<notin> set (map fst (gameColl w)) \<longrightarrow>
      (\<exists>conf w' g.
         createGame c token s ts w = (Inr conf, w') \<and>
         gameColl w' = gameColl w @ [(nextObjectId w + length ts, g)] \<and>
         gameid conf = toString (nextObjectId w + length ts) \<and>
         host g = username decoded \<and> players g = [] \<and> admins g = [] \<and>
         state g = (if minPlayers s = 0 then ready else not_ready))) \<and>
   (createGame c token s ts w = (Inr conf', w'') \<longrightarrow>
      (\<exists>newId g.
         gameColl w'' = gameColl w @ [(newId, g)] \<and> gameid conf' = toString newId \<and>
         (state g = ready) = (minPlayers s = 0) \<and>
         (state g = not_ready) = (minPlayers s \<noteq> 0)))"
proof (intro conjI impI)
  assume v: "of_nat (length (gameColl w)) < MAX_GAMES c \<and>
    jwt_verify token (ACCESS_TOKEN_KEY c) (clock w) = Inr decoded \<and>
    nextObjectId w + length ts \<notin> set (map fst (gameColl w))"
  then have run: "createGame c token s ts w =
           (Inr \<lparr>creds = upgradeCredentials c (clock w) decoded
                             (nextObjectId w + length ts) RoleHost,
                  gameid = toString (nextObjectId w + length ts),
                  taskids = map (\<lambda>t. toString (task_id t)) (fst (assignTaskIds ts w))\<rparr>,
            w\<lparr>nextObjectId := Suc (nextObjectId w + length ts),
               gameColl := gameColl w @
                 [(nextObjectId w + length ts,
                   \<lparr>tasks = fst (assignTaskIds ts w),
                    settings = s\<lparr>endTime :=
                      (if duration s \<noteq> 0 then startTime s + duration s else 0)\<rparr>,
                    state = (if minPlayers s = 0 then ready else not_ready),
                    players = [], admins = [], host = username decoded\<rparr>)]\<rparr>)"
    by (intro createGame_valid) simp_all
  show "\<exists>conf w' g.
         createGame c token s ts w = (Inr conf, w') \<and>
         gameColl w' = gameColl w @ [(nextObjectId w + length ts, g)] \<and>
         gameid conf = toString (nextObjectId w + length ts) \<and>
         host g = username decoded \<and> players g = [] \<and> admins g = [] \<and>
         state g = (if minPlayers s = 0 then ready else not_ready)"
    unfolding run by auto
next
  assume "createGame c token s ts w = (Inr conf', w'')"
  from createGame_Inr [OF this]
  show "\<exists>newId g.
         gameColl w'' = gameColl w @ [(newId, g)] \<and> gameid conf' = toString newId \<and>
         (state g = ready) = (minPlayers s = 0) \<and>
         (state g = not_ready) = (minPlayers s \<noteq> 0)"
    by auto
qed

theorem createGame_initial_state_witness:
  "of_nat (length (gameColl (exWorld []))) < MAX_GAMES exConstants \<and>
   jwt_verify (Signed (exIdentity ''alice'') ''ak'' 900) (ACCESS_TOKEN_KEY exConstants)
     (clock (exWorld [])) = Inr (exIdentity ''alice'') \<and>
   nextObjectId (exWorld []) + length ([] :: TaskSchema list) \<notin> set (map fst (gameColl (exWorld []))) \<and>
   minPlayers (exSettings\<lparr>minPlayers := 0\<rparr>) = 0 \<and>
   (\<exists>conf w' g.
      createGame exConstants (Signed (exIdentity ''alice'') ''ak'' 900)
        (exSettings\<lparr>minPlayers := 0\<rparr>) [] (exWorld []) = (Inr conf, w') \<and>
      gameColl w' = [(10, g)] \<and> state g = ready) \<and>
   minPlayers exSettings = 1 \<and>
   (\<exists>conf w' g.
      createGame exConstants (Signed (exIdentity ''alice'') ''ak'' 900)
        exSettings [] (exWorld []) = (Inr conf, w') \<and>
      gameColl w' = [(10, g)] \<and> state g = not_ready)"
proof -
  have v1: "of_nat (length (gameColl (exWorld []))) < MAX_GAMES exConstants"
    by (simp add: exWorld_def exConstants_def)
  have v2: "jwt_verify (Signed (exIdentity ''alice'') ''ak'' 900) (ACCESS_TOKEN_KEY exConstants)
     (clock (exWorld [])) = Inr (exIdentity ''alice'')"
    by (simp add: jwt_verify_def exConstants_def exWorld_def)
  have v3: "nextObjectId (exWorld []) + length ([] :: TaskSchema list) \<notin>
              set (map fst (gameColl (exWorld [])))"
    by (simp add: exWorld_def)
  have n: "nextObjectId (exWorld []) + length ([] :: TaskSchema list) = 10"
       "gameColl (exWorld []) = []"
    by (simp_all add: exWorld_def)
  have m: "minPlayers (exSettings\<lparr>minPlayers := 0\<rparr>) = 0" "minPlayers exSettings = 1"
    by (simp_all add: exSettings_def)
  from conjunct1 [OF createGame_initial_state
      [of "exWorld []" exConstants "Signed (exIdentity ''alice'') ''ak'' 900"
          "exIdentity ''alice''" "[]" "exSettings\<lparr>minPlayers := 0\<rparr>"]] v1 v2 v3
  have a: "\<exists>conf w' g.
      createGame exConstants (Signed (exIdentity ''alice'') ''ak'' 900)
        (exSettings\<lparr>minPlayers := 0\<rparr>) [] (exWorld []) = (Inr conf, w') \<and>
      gameColl w' = [(10, g)] \<and> state g = ready"
    unfolding n m by auto
  from conjunct1 [OF createGame_initial_state
      [of "exWorld []" exConstants "Signed (exIdentity ''alice'') ''ak'' 900"
          "exIdentity ''alice''" "[]" exSettings]] v1 v2 v3
  have b: "\<exists>conf w' g.
      createGame exConstants (Signed (exIdentity ''alice'') ''ak'' 900)
        exSettings [] (exWorld []) = (Inr conf, w') \<and>
      gameColl w' = [(10, g)] \<and> state g = not_ready"
    unfolding n m by auto
  from v1 v2 v3 m a b show ?thesis by blast
qed

subsection \<open>restartGame\<close>

lemma findOne_append:
  "findOne i coll = Some d \<Longrightarrow> findOne i (coll @ rest) = Some d"
  by (simp add: findOne_def map_add_Some_iff)

text \<open>What a successful restartGame has done: its checks passed and createGame ran on the
  settings and tasks of the game read.\<close>

lemma restartGame_Inr:
  assumes "restartGame c token raw w = (Inr conf, w')"
  shows "\<exists>gid game decoded.
           parseObjectId raw = Inr gid \<and>
           verifyToken c token gid [RoleHost, RoleAdmin] w = Inr decoded \<and>
           findOne gid (gameColl w) = Some game \<and> state game = ended \<and>
           createGame c token (settings game) (tasks game) w = (Inr conf, w')"
  using assms unfolding restartGame_def
  by (auto split: sum.splits option.splits if_splits)

text \<open>Carol, an admin of Alice's ended game 5, restarts it.\<close>

lemma exRestart_run:
  "restartGame exConstants (Signed (exScoped ''carol'' 5 RoleAdmin) ''ak'' 900) exRawId exEndedWorld =
     (Inr \<lparr>creds = upgradeCredentials exConstants 0 (exScoped ''carol'' 5 RoleAdmin) 11 RoleHost,
           gameid = toString 11, taskids = [toString 10]\<rparr>,
      exEndedWorld\<lparr>nextObjectId := 12,
                    gameColl := [(5, exGame ended [] [''carol'']), (11, exRestartedGame)]\<rparr>)"
  by (simp add: restartGame_def exRawId_parse verifyToken_def jwt_verify_def exConstants_def
        exScoped_def exEndedWorld_def exWorld_def findOne_def exGame_def createGame_def
        newObjectId_def gameColl_insertOne_def exSettings_def exRestartedGame_def Let_def)

text \<open>
  C10. After a successful restartGame the game created has as host the username of the
  credential presented to restartGame, and the credentials returned are signed for that
  user with role host on the new game; the host of the original game is not copied. In
  the scenario the caller is an admin of the original game, whose host is someone else.
\<close>

theorem restartGame_host_is_caller:
  assumes "restartGame c token raw w = (Inr conf, w')"
  shows "\<exists>decoded newId g.
           jwt_verify token (ACCESS_TOKEN_KEY c) (clock w) = Inr decoded \<and>
           gameColl w' = gameColl w @ [(newId, g)] \<and>
           gameid conf = toString newId \<and>
           host g = username decoded \<and>
           accessToken (creds conf) =
             Signed \<lparr>userid = userid decoded, username = username decoded,
                      gameId = Some newId, role = Some RoleHost\<rparr>
               (ACCESS_TOKEN_KEY c) (clock w div 1000 + 900) \<and>
           refreshToken (creds conf) =
             Signed \<lparr>userid = userid decoded, username = username decoded,
                      gameId = Some newId, role = Some RoleHost\<rparr>
               (REFRESH_TOKEN_KEY c) (clock w div 1000 + 10800)"
proof -
  from restartGame_Inr [OF assms] obtain game :: GameSchema where
    "createGame c token (settings game) (tasks game) w = (Inr conf, w')"
    by blast
  from createGame_Inr [OF this] show ?thesis
    by (auto simp: upgradeCredentials_def jwt_sign_def Let_def)
qed

theorem restartGame_host_is_caller_witness:
  "restartGame exConstants (Signed (exScoped ''carol'' 5 RoleAdmin) ''ak'' 900) exRawId exEndedWorld =
     (Inr \<lparr>creds = upgradeCredentials exConstants 0 (exScoped ''carol'' 5 RoleAdmin) 11 RoleHost,
           gameid = toString 11, taskids = [toString 10]\<rparr>,
      exEndedWorld\<lparr>nextObjectId := 12,
                    gameColl := [(5, exGame ended [] [''carol'']), (11, exRestartedGame)]\<rparr>) \<and>
   host (exGame ended [] [''carol'']) = ''alice'' \<and>
   (\<exists>decoded newId g.
      jwt_verify (Signed (exScoped ''carol'' 5 RoleAdmin) ''ak'' 900) ''ak'' 0 = Inr decoded \<and>
      [(5, exGame ended [] [''carol'']), (11, exRestartedGame)] =
        gameColl exEndedWorld @ [(newId, g)] \<and>
      host g = username decoded \<and> username decoded = ''carol'')"
proof -
  note run = restartGame_host_is_caller [OF exRestart_run]
  have "jwt_verify (Signed (exScoped ''carol'' 5 RoleAdmin) ''ak'' 900) ''ak'' 0 =
          Inr (exScoped ''carol'' 5 RoleAdmin)"
    by (simp add: jwt_verify_def)
  with run exRestart_run show ?thesis
    by (auto simp: exConstants_def exEndedWorld_def exWorld_def exGame_def exScoped_def)
qed

text \<open>
  C6, as amended. A successful restartGame appends one new game and leaves the original
  document and the player collection as they were. The new game has the settings of the
  original but for \<open>endTime\<close>, which createGame computes again (\<open>startTime + duration\<close>, or
  0 when the duration is 0), and the tasks of the original in the same order and with the
  same content but for their \<open>_id\<close>: createGame gives every task a fresh ObjectId.
\<close>

theorem restartGame_reuses_settings_and_tasks:
  assumes "restartGame c token raw w = (Inr conf, w')"
  shows "\<exists>gid game newId g.
           parseObjectId raw = Inr gid \<and>
           findOne gid (gameColl w) = Some game \<and> state game = ended \<and>
           gameColl w' = gameColl w @ [(newId, g)] \<and>
           findOne gid (gameColl w') = Some game \<and>
           playerColl w' = playerColl w \<and>
           gameid conf = toString newId \<and>
           settings g = (settings game)\<lparr>endTime :=
             (if duration (settings game) \<noteq> 0
              then startTime (settings game) + duration (settings game) else 0)\<rparr> \<and>
           map task_body (tasks g) = map task_body (tasks game) \<and>
           map task_id (tasks g) =
             [nextObjectId w ..< nextObjectId w + length (tasks game)]"
proof -
  from restartGame_Inr [OF assms] obtain gid and game :: GameSchema where
    g: "parseObjectId raw = Inr gid" "findOne gid (gameColl w) = Some game" "state game = ended"
    and cr: "createGame c token (settings game) (tasks game) w = (Inr conf, w')"
    by blast
  from createGame_Inr [OF cr] g show ?thesis
    by (auto simp: assignTaskIds_ids assignTaskIds_body findOne_append)
qed

theorem restartGame_reuses_settings_and_tasks_witness:
  "restartGame exConstants (Signed (exScoped ''carol'' 5 RoleAdmin) ''ak'' 900) exRawId exEndedWorld =
     (Inr \<lparr>creds = upgradeCredentials exConstants 0 (exScoped ''carol'' 5 RoleAdmin) 11 RoleHost,
           gameid = toString 11, taskids = [toString 10]\<rparr>,
      exEndedWorld\<lparr>nextObjectId := 12,
                    gameColl := [(5, exGame ended [] [''carol'']), (11, exRestartedGame)]\<rparr>) \<and>
   (\<exists>gid game newId g.
      parseObjectId exRawId = Inr gid \<and>
      findOne gid (gameColl exEndedWorld) = Some game \<and> state game = ended \<and>
      [(5, exGame ended [] [''carol'']), (11, exRestartedGame)] =
        gameColl exEndedWorld @ [(newId, g)] \<and>
      settings g = settings game \<and>
      map task_body (tasks g) = map task_body (tasks game) \<and>
      map task_id (tasks g) = [10])"
proof -
  from restartGame_reuses_settings_and_tasks [OF exRestart_run] obtain gid game newId g where
    h: "parseObjectId exRawId = Inr gid"
       "findOne gid (gameColl exEndedWorld) = Some game" "state game = ended"
       "gameColl (exEndedWorld\<lparr>nextObjectId := 12,
                    gameColl := [(5, exGame ended [] [''carol'']), (11, exRestartedGame)]\<rparr>) =
          gameColl exEndedWorld @ [(newId, g)]"
       "settings g = (settings game)\<lparr>endTime :=
             (if duration (settings game) \<noteq> 0
              then startTime (settings game) + duration (settings game) else 0)\<rparr>"
       "map task_body (tasks g) = map task_body (tasks game)"
       "map task_id (tasks g) =
             [nextObjectId exEndedWorld ..< nextObjectId exEndedWorld + length (tasks game)]"
    by blast
  from h(1) have gid: "gid = 5" by (simp add: exRawId_parse)
  from h(2) gid have game: "game = exGame ended [] [''carol'']"
    by (simp add: exEndedWorld_def exWorld_def findOne_def)
  have s: "settings g = settings game"
    using h(5) by (simp add: game exGame_def exSettings_def)
  have t: "map task_id (tasks g) = [10]"
    using h(7) by (simp add: game exGame_def exEndedWorld_def exWorld_def)
  from exRestart_run h(1,2,3,4,6) s t show ?thesis
    by (intro conjI exI [of _ gid] exI [of _ game] exI [of _ newId] exI [of _ g]) simp_all
qed

text \<open>
  The tasks of the new game are not the tasks of the original: the one task of the
  restarted game had \<open>_id\<close> 1 and has \<open>_id\<close> 10 in the new game.
\<close>

theorem restartGame_tasks_counterexample:
  "restartGame exConstants (Signed (exScoped ''carol'' 5 RoleAdmin) ''ak'' 900) exRawId exEndedWorld =
     (Inr \<lparr>creds = upgradeCredentials exConstants 0 (exScoped ''carol'' 5 RoleAdmin) 11 RoleHost,
           gameid = toString 11, taskids = [toString 10]\<rparr>,
      exEndedWorld\<lparr>nextObjectId := 12,
                    gameColl := [(5, exGame ended [] [''carol'']), (11, exRestartedGame)]\<rparr>) \<and>
   findOne 5 (gameColl exEndedWorld) = Some (exGame ended [] [''carol'']) \<and>
   state (exGame ended [] [''carol'']) = ended \<and>
   tasks (exGame ended [] [''carol'']) = [\<lparr>task_id = 1, task_body = ''t''\<rparr>] \<and>
   tasks exRestartedGame = [\<lparr>task_id = 10, task_body = ''t''\<rparr>] \<and>
   tasks exRestartedGame \<noteq> tasks (exGame ended [] [''carol''])"
  using exRestart_run
  by (simp add: exEndedWorld_def exWorld_def findOne_def exGame_def exRestartedGame_def)

subsection \<open>Lifecycle guards\<close>

lemma exHostToken_verify:
  "verifyToken exConstants exHostToken 5 [RoleHost, RoleAdmin] (exWorld gs) =
     Inr (exScoped ''alice'' 5 RoleHost)"
  by (simp add: verifyToken_def exHostToken_def jwt_verify_def exConstants_def exWorld_def
        exScoped_def)

lemma exWorld_findOne: "findOne 5 (gameColl (exWorld [(5, g)])) = Some g"
  by (simp add: exWorld_def findOne_def)

text \<open>
  C2. Let the game exist. When its state is not "ready", startGame fails and leaves the
  world as it was, whoever calls; for a caller that passes the host-or-admin check the
  failure is the assertion "Invalid game state". The same holds of stopGame when the state
  is not "running", of restartGame when the state is not "ended" (assertion "Game hasn't
  ended, unable to restart") and of deleteGame when the state is "running" (assertion
  "Game is still running, unable to delete"). So none of the four succeeds outside its
  legal state, and no game or player document changes.
\<close>

theorem lifecycle_guards:
  assumes "parseObjectId raw = Inr gid" and "findOne gid (gameColl w) = Some game"
  shows
    "(state game \<noteq> ready \<longrightarrow>
        (\<exists>e. startGame c token raw arn ev w = (Inl e, w)) \<and>
        ((\<exists>d. verifyToken c token gid [RoleHost, RoleAdmin] w = Inr d) \<longrightarrow>
           startGame c token raw arn ev w = (Inl (AssertionError ''Invalid game state''), w))) \<and>
     (state game \<noteq> running \<longrightarrow>
        (\<exists>e. stopGame c token raw fromSchedule w = (Inl e, w)) \<and>
        ((\<exists>d. verifyToken c token gid [RoleHost, RoleAdmin] w = Inr d) \<longrightarrow>
           stopGame c token raw fromSchedule w = (Inl (AssertionError ''Invalid game state''), w))) \<and>
     (state game \<noteq> ended \<longrightarrow>
        (\<exists>e. restartGame c token raw w = (Inl e, w)) \<and>
        ((\<exists>d. verifyToken c token gid [RoleHost, RoleAdmin] w = Inr d) \<longrightarrow>
           restartGame c token raw w =
             (Inl (AssertionError (''Game hasn'' @ [CHR 0x27] @ ''t ended, unable to restart'')), w))) \<and>
     (state game = running \<longrightarrow>
        (\<exists>e. deleteGame others c token raw w = (Inl e, w)) \<and>
        ((\<exists>d. verifyToken c token gid [RoleHost, RoleAdmin] w = Inr d) \<longrightarrow>
           deleteGame others c token raw w =
             (Inl (AssertionError ''Game is still running, unable to delete''), w)))"
proof (intro conjI impI)
  assume "state game \<noteq> ready"
  then show "\<exists>e. startGame c token raw arn ev w = (Inl e, w)"
    using assms by (simp add: startGame_def split: sum.splits)
next
  assume "state game \<noteq> ready" and "\<exists>d. verifyToken c token gid [RoleHost, RoleAdmin] w = Inr d"
  then show "startGame c token raw arn ev w = (Inl (AssertionError ''Invalid game state''), w)"
    using assms by (auto simp: startGame_def)
next
  assume "state game \<noteq> running"
  then show "\<exists>e. stopGame c token raw fromSchedule w = (Inl e, w)"
    using assms by (simp add: stopGame_def split: sum.splits)
next
  assume "state game \<noteq> running" and "\<exists>d. verifyToken c token gid [RoleHost, RoleAdmin] w = Inr d"
  then show "stopGame c token raw fromSchedule w = (Inl (AssertionError ''Invalid game state''), w)"
    using assms by (auto simp: stopGame_def)
next
  assume "state game \<noteq> ended"
  then show "\<exists>e. restartGame c token raw w = (Inl e, w)"
    using assms by (simp add: restartGame_def split: sum.splits)
next
  assume "state game \<noteq> ended" and "\<exists>d. verifyToken c token gid [RoleHost, RoleAdmin] w = Inr d"
  then show "restartGame c token raw w =
      (Inl (AssertionError (''Game hasn'' @ [CHR 0x27] @ ''t ended, unable to restart'')), w)"
    using assms by (auto simp: restartGame_def)
next
  assume "state game = running"
  then show "\<exists>e. deleteGame others c token raw w = (Inl e, w)"
    using assms by (simp add: deleteGame_def split: sum.splits)
next
  assume "state game = running" and "\<exists>d. verifyToken c token gid [RoleHost, RoleAdmin] w = Inr d"
  then show "deleteGame others c token raw w =
      (Inl (AssertionError ''Game is still running, unable to delete''), w)"
    using assms by (auto simp: deleteGame_def)
qed

theorem lifecycle_guards_witness:
  "startGame exConstants exHostToken exRawId None None (exWorld [(5, exGame not_ready [] [])]) =
     (Inl (AssertionError ''Invalid game state''), exWorld [(5, exGame not_ready [] [])]) \<and>
   stopGame exConstants exHostToken exRawId None (exWorld [(5, exGame not_ready [] [])]) =
     (Inl (AssertionError ''Invalid game state''), exWorld [(5, exGame not_ready [] [])]) \<and>
   restartGame exConstants exHostToken exRawId (exWorld [(5, exGame not_ready [] [])]) =
     (Inl (AssertionError (''Game hasn'' @ [CHR 0x27] @ ''t ended, unable to restart'')),
      exWorld [(5, exGame not_ready [] [])]) \<and>
   deleteGame (\<lambda>x. x) exConstants exHostToken exRawId (exWorld [(5, exGame running [''bob''] [])]) =
     (Inl (AssertionError ''Game is still running, unable to delete''),
      exWorld [(5, exGame running [''bob''] [])])"
proof -
  have s1: "state (exGame not_ready [] []) = not_ready"
    and s2: "state (exGame running [''bob''] []) = running"
    by (simp_all add: exGame_def)
  note a = lifecycle_guards [OF exRawId_parse exWorld_findOne,
      of "exGame not_ready [] []" exConstants exHostToken None None None]
  note b = lifecycle_guards [OF exRawId_parse exWorld_findOne,
      of "exGame running [''bob''] []" exConstants exHostToken None None None "\<lambda>x. x"]
  show ?thesis
    using a b s1 s2 exHostToken_verify by simp
qed

subsection \<open>stopGame and the timer\<close>

lemma findOne_replaceFirst:
  "findOne k (replaceFirst i d coll) =
     (if k = i then (case findOne i coll of None \<Rightarrow> None | Some x \<Rightarrow> Some d) else findOne k coll)"
  by (induction coll) (auto simp: findOne_def)

lemma replaceFirst_same: "findOne i coll = Some d \<Longrightarrow> replaceFirst i d coll = coll"
  by (induction coll) (auto simp: findOne_def split: if_splits)

lemma exHostToken_verify_clock:
  "clock w = 0 \<Longrightarrow>
   verifyToken exConstants exHostToken 5 [RoleHost, RoleAdmin] w = Inr (exScoped ''alice'' 5 RoleHost)"
  by (simp add: verifyToken_def exHostToken_def jwt_verify_def exConstants_def exScoped_def)

text \<open>
  C7. A stopGame called with \<open>fromSchedule = true\<close> sends nothing to the scheduler,
  whatever else happens. A stopGame called without the marker, by a caller that passes
  the host-or-admin check on a running game, sends the cancellation and returns the
  start time and the end time after the state has been set to "ended", whatever the
  scheduler answers: the result does not depend on the scheduler's state. In the scenarios
  the cancellation fails once with an error of the service and once because there is no
  such timer.
\<close>

theorem stopGame_timer_cancellation:
  "schedulerCommands (snd (stopGame c token raw (Some True) w)) = schedulerCommands w \<and>
   schedules (snd (stopGame c token raw (Some True) w)) = schedules w \<and>
   (parseObjectId raw = Inr gid \<and>
    verifyToken c token gid [RoleHost, RoleAdmin] w = Inr d \<and>
    findOne gid (gameColl w) = Some game \<and> state game = running \<and>
    fromSchedule \<noteq> Some True \<longrightarrow>
      fst (stopGame c token raw fromSchedule w) =
        Inr \<lparr>conf_startTime = startTime (settings game), conf_endTime = of_int (clock w)\<rparr> \<and>
      findOne gid (gameColl (snd (stopGame c token raw fromSchedule w))) =
        Some (game\<lparr>state := ended, settings := (settings game)\<lparr>endTime := of_int (clock w)\<rparr>\<rparr>) \<and>
      schedulerCommands (snd (stopGame c token raw fromSchedule w)) =
        schedulerCommands w @
          [DeleteScheduleCommand (''end-game-'' @ raw) (SCHEDULER_GROUP_NAME c)])"
proof (intro conjI impI)
  show "schedulerCommands (snd (stopGame c token raw (Some True) w)) = schedulerCommands w"
    by (simp add: stopGame_def gameColl_updateOne_def Let_def
          split: sum.splits option.splits)
  show "schedules (snd (stopGame c token raw (Some True) w)) = schedules w"
    by (simp add: stopGame_def gameColl_updateOne_def Let_def
          split: sum.splits option.splits)
next
  assume h: "parseObjectId raw = Inr gid \<and>
    verifyToken c token gid [RoleHost, RoleAdmin] w = Inr d \<and>
    findOne gid (gameColl w) = Some game \<and> state game = running \<and>
    fromSchedule \<noteq> Some True"
  have m: "applyUpdate [SetState ended, SetEndTime (of_int (clock w))] game \<noteq> game"
  proof
    assume "applyUpdate [SetState ended, SetEndTime (of_int (clock w))] game = game"
    then have "state (applyUpdate [SetState ended, SetEndTime (of_int (clock w))] game) = state game"
      by simp
    with h show False by (simp add: applyUpdate_def)
  qed
  have u: "applyUpdate [SetState ended, SetEndTime (of_int (clock w))] game =
           game\<lparr>state := ended, settings := (settings game)\<lparr>endTime := of_int (clock w)\<rparr>\<rparr>"
    by (simp add: applyUpdate_def)
  show "fst (stopGame c token raw fromSchedule w) =
        Inr \<lparr>conf_startTime = startTime (settings game), conf_endTime = of_int (clock w)\<rparr>"
    using h m by (simp add: stopGame_def gameColl_updateOne_def Let_def split: prod.splits)
  show "findOne gid (gameColl (snd (stopGame c token raw fromSchedule w))) =
        Some (game\<lparr>state := ended, settings := (settings game)\<lparr>endTime := of_int (clock w)\<rparr>\<rparr>)"
    using h m u
    by (simp add: stopGame_def gameColl_updateOne_def scheduler_send_def Let_def
          findOne_replaceFirst split: prod.splits option.splits)
  show "schedulerCommands (snd (stopGame c token raw fromSchedule w)) =
        schedulerCommands w @
          [DeleteScheduleCommand (''end-game-'' @ raw) (SCHEDULER_GROUP_NAME c)]"
    using h m
    by (simp add: stopGame_def gameColl_updateOne_def scheduler_send_def Let_def
          split: prod.splits option.splits)
qed

theorem stopGame_timer_cancellation_witness:
  "fst (scheduler_send (DeleteScheduleCommand (''end-game-'' @ exRawId) ''grp'') exFaultyWorld) =
     Inl (SchedulerError ''AccessDenied'') \<and>
   fst (stopGame exConstants exHostToken exRawId None exFaultyWorld) =
     Inr \<lparr>conf_startTime = 0, conf_endTime = 0\<rparr> \<and>
   findOne 5 (gameColl (snd (stopGame exConstants exHostToken exRawId None exFaultyWorld))) =
     Some (exGame ended [''bob''] []) \<and>
   fst (scheduler_send (DeleteScheduleCommand (''end-game-'' @ exRawId) ''grp'')
          (exWorld [(5, exGame running [''bob''] [])])) = Inl ResourceNotFoundException \<and>
   fst (stopGame exConstants exHostToken exRawId (Some False)
          (exWorld [(5, exGame running [''bob''] [])])) =
     Inr \<lparr>conf_startTime = 0, conf_endTime = 0\<rparr> \<and>
   schedulerCommands (snd (stopGame exConstants exHostToken exRawId (Some True)
          (exWorld [(5, exGame running [''bob''] [])]))) = []"
proof -
  have f: "findOne 5 (gameColl exFaultyWorld) = Some (exGame running [''bob''] [])"
    by (simp add: exFaultyWorld_def exWorld_def findOne_def)
  have v: "verifyToken exConstants exHostToken 5 [RoleHost, RoleAdmin] exFaultyWorld =
             Inr (exScoped ''alice'' 5 RoleHost)"
    by (rule exHostToken_verify_clock) (simp add: exFaultyWorld_def exWorld_def)
  have s: "state (exGame running [''bob''] []) = running"
    by (simp add: exGame_def)
  have a: "fst (stopGame exConstants exHostToken exRawId None exFaultyWorld) =
             Inr \<lparr>conf_startTime = startTime (settings (exGame running [''bob''] [])),
                   conf_endTime = of_int (clock exFaultyWorld)\<rparr> \<and>
           findOne 5 (gameColl (snd (stopGame exConstants exHostToken exRawId None exFaultyWorld))) =
             Some ((exGame running [''bob''] [])\<lparr>state := ended,
                settings := (settings (exGame running [''bob''] []))\<lparr>endTime := of_int (clock exFaultyWorld)\<rparr>\<rparr>)"
    using stopGame_timer_cancellation
            [of exConstants exHostToken exRawId exFaultyWorld 5 "exScoped ''alice'' 5 RoleHost"
                "exGame running [''bob''] []" None]
          exRawId_parse f v s
    by simp
  have b: "fst (stopGame exConstants exHostToken exRawId (Some False)
                  (exWorld [(5, exGame running [''bob''] [])])) =
             Inr \<lparr>conf_startTime = startTime (settings (exGame running [''bob''] [])),
                   conf_endTime = of_int (clock (exWorld [(5, exGame running [''bob''] [])]))\<rparr>"
    using stopGame_timer_cancellation
            [of exConstants exHostToken exRawId "exWorld [(5, exGame running [''bob''] [])]" 5
                "exScoped ''alice'' 5 RoleHost" "exGame running [''bob''] []" "Some False"]
          exRawId_parse exWorld_findOne exHostToken_verify s
    by simp
  have c: "schedulerCommands (snd (stopGame exConstants exHostToken exRawId (Some True)
             (exWorld [(5, exGame running [''bob''] [])]))) =
           schedulerCommands (exWorld [(5, exGame running [''bob''] [])])"
    using stopGame_timer_cancellation
            [of exConstants exHostToken exRawId "exWorld [(5, exGame running [''bob''] [])]"]
    by blast
  have d1: "fst (scheduler_send (DeleteScheduleCommand (''end-game-'' @ exRawId) ''grp'') exFaultyWorld) =
     Inl (SchedulerError ''AccessDenied'')"
    by (simp add: scheduler_send_def exFaultyWorld_def exWorld_def Let_def)
  have d2: "fst (scheduler_send (DeleteScheduleCommand (''end-game-'' @ exRawId) ''grp'')
          (exWorld [(5, exGame running [''bob''] [])])) = Inl ResourceNotFoundException"
    by (simp add: scheduler_send_def exWorld_def Let_def)
  show ?thesis
    using a b c d1 d2
    by (simp add: exGame_def exSettings_def exFaultyWorld_def exWorld_def)
qed

subsection \<open>joinGame\<close>





















subsection \<open>Sessions\<close>

lemma joinGame_callback_sessions:
  "openSessions (snd (joinGame_callback d gid r game w)) = openSessions w"
  by (simp add: joinGame_callback_def gameColl_updateOne_def playerColl_insertOne_def
        newObjectId_def Let_def split: option.splits)

lemma deleteGame_callback_sessions:
  "openSessions (snd (deleteGame_callback gid w)) = openSessions w"
  by (simp add: deleteGame_callback_def gameColl_deleteOne_def playerColl_deleteMany_def Let_def)

lemma interleave_sessions: "openSessions (interleave others w) = openSessions w"
  by (simp add: interleave_def split_beta Let_def)

text \<open>
  The three ways joinGame and deleteGame end: a check before the transaction fails and
  the world is as it was; the transaction fails and the session started for it is still
  open; the transaction commits and the session is ended.
\<close>

lemma joinGame_sessions:
  "joinGame others c token raw r code w = (res, w') \<Longrightarrow>
     (\<exists>e. res = Inl e \<and> w' = w) \<or>
     (\<exists>e. res = Inl e \<and> openSessions w' = Suc (openSessions w)) \<or>
     (\<exists>cr. res = Inr cr \<and> openSessions w' = openSessions w)"
proof -
  assume run: "joinGame others c token raw r code w = (res, w')"
  have s: "\<And>d gid game. openSessions (snd (joinGame_callback d gid r game
             (startSession (interleave others w)))) = Suc (openSessions w)"
    by (simp add: joinGame_callback_sessions startSession_def interleave_sessions)
  show ?thesis
    using run
    apply (simp add: joinGame_def withTransaction_def Let_def
          split: sum.splits option.splits if_splits prod.splits)
    using s
    by (auto simp: endSession_def dest!: arg_cong [where f = snd])
qed

lemma deleteGame_sessions:
  "deleteGame others c token raw w = (res, w') \<Longrightarrow>
     (\<exists>e. res = Inl e \<and> w' = w) \<or>
     (\<exists>e. res = Inl e \<and> openSessions w' = Suc (openSessions w)) \<or>
     (\<exists>g. res = Inr g \<and> openSessions w' = openSessions w)"
proof -
  assume run: "deleteGame others c token raw w = (res, w')"
  have s: "\<And>gid. openSessions (snd (deleteGame_callback gid
             (startSession (interleave others w)))) = Suc (openSessions w)"
    by (simp add: deleteGame_callback_sessions startSession_def interleave_sessions)
  show ?thesis
    using run
    apply (simp add: deleteGame_def withTransaction_def Let_def
          split: sum.splits option.splits if_splits prod.splits)
    using s
    by (auto simp: endSession_def dest!: arg_cong [where f = snd])
qed

text \<open>
  Carol joins game 5 as an admin and Alice deletes game 5, each while another deleteGame
  of game 5 commits between the read of the game and the transaction.
\<close>

lemma exJoin_abort_run:
  "joinGame exConcurrentDelete exConstants exCarolToken exRawId admin (Some ''code'')
     (exWorld [(5, exGame not_ready [] [])]) =
   (Inl (AssertionError ''Operation unsuccessful''),
    (exWorld [])\<lparr>gameUpdates := [(5, [AddToSetAdmins ''carol''])], openSessions := 1\<rparr>)"
  by (simp add: joinGame_def exRawId_parse jwt_verify_def exCarolToken_def exConstants_def
        exWorld_def findOne_def exGame_def exSettings_def exIdentity_def adminCodeOk_def
        exConcurrentDelete_def
        withTransaction_def joinGame_callback_def interleave_def startSession_def
        gameColl_updateOne_def Let_def)

lemma exDelete_abort_run:
  "deleteGame exConcurrentDelete exConstants exHostToken exRawId
     (exWorld [(5, exGame not_ready [] [])]) =
   (Inl (AssertionError ''Unable to complete delete operation''),
    (exWorld [])\<lparr>openSessions := 1\<rparr>)"
  by (simp add: deleteGame_def exRawId_parse exHostToken_verify
        exWorld_findOne exGame_def exConcurrentDelete_def
        withTransaction_def deleteGame_callback_def interleave_def startSession_def
        gameColl_deleteOne_def Let_def)
     (simp add: exWorld_def)

text \<open>
  C1. joinGame and deleteGame end the session they start when the transaction commits:
  \<open>endSession\<close> is the continuation \<open>then\<close> of the transaction. When the callback of
  the transaction throws (the world returned with the error is then not the world the
  operation started in), the operation returns the error and the session is still open.
  So the session is not closed on every exit path. In the scenario the \<open>updateOne\<close> of
  joinGame and the \<open>deleteOne\<close> of deleteGame find no game, because a concurrent deleteGame
  has removed it.
\<close>

theorem session_closed_only_on_commit:
  "(joinGame others c token raw r code w = (Inr cr, w') \<longrightarrow> openSessions w' = openSessions w) \<and>
   (joinGame others c token raw r code w = (Inl e, w') \<and> w' \<noteq> w \<longrightarrow>
      openSessions w' = Suc (openSessions w)) \<and>
   (deleteGame others c token raw w = (Inr g, w'') \<longrightarrow> openSessions w'' = openSessions w) \<and>
   (deleteGame others c token raw w = (Inl e', w'') \<and> w'' \<noteq> w \<longrightarrow>
      openSessions w'' = Suc (openSessions w))"
  using joinGame_sessions [of others c token raw r code w]
        deleteGame_sessions [of others c token raw w]
  by auto

theorem session_closed_only_on_commit_witness:
  "joinGame exConcurrentDelete exConstants exCarolToken exRawId admin (Some ''code'')
     (exWorld [(5, exGame not_ready [] [])]) =
   (Inl (AssertionError ''Operation unsuccessful''),
    (exWorld [])\<lparr>gameUpdates := [(5, [AddToSetAdmins ''carol''])], openSessions := 1\<rparr>) \<and>
   deleteGame exConcurrentDelete exConstants exHostToken exRawId
     (exWorld [(5, exGame not_ready [] [])]) =
   (Inl (AssertionError ''Unable to complete delete operation''),
    (exWorld [])\<lparr>openSessions := 1\<rparr>) \<and>
   openSessions (exWorld [(5, exGame not_ready [] [])]) = 0 \<and>
   openSessions ((exWorld [])\<lparr>gameUpdates := [(5, [AddToSetAdmins ''carol''])],
                              openSessions := 1\<rparr>) = Suc 0 \<and>
   openSessions ((exWorld [])\<lparr>openSessions := 1\<rparr>) = Suc 0"
proof -
  have z: "openSessions (exWorld [(5, exGame not_ready [] [])]) = 0"
    by (simp add: exWorld_def)
  have n: "(exWorld [])\<lparr>gameUpdates := [(5, [AddToSetAdmins ''carol''])], openSessions := 1\<rparr>
             \<noteq> exWorld [(5, exGame not_ready [] [])]"
    by (simp add: exWorld_def)
  note t = session_closed_only_on_commit
      [of exConcurrentDelete exConstants exCarolToken exRawId admin "Some ''code''"
          "exWorld [(5, exGame not_ready [] [])]" _
          "(exWorld [])\<lparr>gameUpdates := [(5, [AddToSetAdmins ''carol''])], openSessions := 1\<rparr>"
          "AssertionError ''Operation unsuccessful''"]
  have j: "openSessions ((exWorld [])\<lparr>gameUpdates := [(5, [AddToSetAdmins ''carol''])],
                            openSessions := 1\<rparr>) =
           Suc (openSessions (exWorld [(5, exGame not_ready [] [])]))"
    using t exJoin_abort_run n by blast
  show ?thesis
    using exJoin_abort_run exDelete_abort_run z j by simp
qed

subsection \<open>leaveGame\<close>

lemma exAdminToken_verify:
  "verifyToken exConstants exAdminToken 5 [RolePlayer, RoleAdmin] (exWorld gs) =
     Inr (exScoped ''carol'' 5 RoleAdmin)"
  by (simp add: verifyToken_def exAdminToken_def jwt_verify_def exConstants_def exWorld_def
        exScoped_def)

text \<open>
  C5. For a caller that passes the player-or-admin check of leaveGame on an existing
  game: when the username is among the players, leaveGame removes it from the players
  and succeeds; when it is not, no document is modified and leaveGame fails with the
  assertion "No player removed", the collections being as they were (the world has
  changed in the record of the update document sent only). The update pulls from
  \<open>players\<close> only, so a caller authorized as admin, whose username is in \<open>admins\<close>, is
  not removed from the roster: the scenario is Carol, an admin of game 5.
\<close>

theorem leaveGame_pulls_from_players_only:
  assumes "parseObjectId raw = Inr gid"
    and "verifyToken c token gid [RolePlayer, RoleAdmin] w = Inr d"
    and "findOne gid (gameColl w) = Some game"
  shows "(username d \<in> set (players game) \<longrightarrow>
            leaveGame c token raw w =
              (Inr (), w\<lparr>gameUpdates := gameUpdates w @ [(gid, [PullPlayers (username d)])],
                         gameColl := replaceFirst gid
                           (game\<lparr>players := removeAll (username d) (players game)\<rparr>)
                           (gameColl w)\<rparr>)) \<and>
         (username d \<notin> set (players game) \<longrightarrow>
            leaveGame c token raw w =
              (Inl (AssertionError ''No player removed''),
               w\<lparr>gameUpdates := gameUpdates w @ [(gid, [PullPlayers (username d)])]\<rparr>) \<and>
            gameColl (snd (leaveGame c token raw w)) = gameColl w \<and>
            playerColl (snd (leaveGame c token raw w)) = playerColl w)"
proof (intro conjI impI)
  assume m: "username d \<in> set (players game)"
  have "username d \<notin> set (removeAll (username d) (players game))"
    by simp
  with m have "removeAll (username d) (players game) \<noteq> players game"
    by metis
  moreover have "players (game\<lparr>players := removeAll (username d) (players game)\<rparr>) =
                 removeAll (username d) (players game)"
    by simp
  ultimately have "game\<lparr>players := removeAll (username d) (players game)\<rparr> \<noteq> game"
    by metis
  with assms show "leaveGame c token raw w =
      (Inr (), w\<lparr>gameUpdates := gameUpdates w @ [(gid, [PullPlayers (username d)])],
                 gameColl := replaceFirst gid
                   (game\<lparr>players := removeAll (username d) (players game)\<rparr>) (gameColl w)\<rparr>)"
    by (simp add: leaveGame_def gameColl_updateOne_def applyUpdate_def Let_def)
next
  assume "username d \<notin> set (players game)"
  then have "game\<lparr>players := removeAll (username d) (players game)\<rparr> = game"
    by simp
  with assms show run: "leaveGame c token raw w =
      (Inl (AssertionError ''No player removed''),
       w\<lparr>gameUpdates := gameUpdates w @ [(gid, [PullPlayers (username d)])]\<rparr>)"
    by (simp add: leaveGame_def gameColl_updateOne_def applyUpdate_def replaceFirst_same Let_def)
  show "gameColl (snd (leaveGame c token raw w)) = gameColl w"
    by (simp add: run)
  show "playerColl (snd (leaveGame c token raw w)) = playerColl w"
    by (simp add: run)
qed

theorem leaveGame_pulls_from_players_only_witness:
  "verifyToken exConstants exAdminToken 5 [RolePlayer, RoleAdmin]
     (exWorld [(5, exGame ready [''bob''] [''carol''])]) = Inr (exScoped ''carol'' 5 RoleAdmin) \<and>
   leaveGame exConstants exAdminToken exRawId (exWorld [(5, exGame ready [''bob''] [''carol''])]) =
     (Inl (AssertionError ''No player removed''),
      (exWorld [(5, exGame ready [''bob''] [''carol''])])
        \<lparr>gameUpdates := [(5, [PullPlayers ''carol''])]\<rparr>) \<and>
   gameColl (snd (leaveGame exConstants exAdminToken exRawId
                    (exWorld [(5, exGame ready [''bob''] [''carol''])]))) =
     [(5, exGame ready [''bob''] [''carol''])] \<and>
   admins (exGame ready [''bob''] [''carol'']) = [''carol'']"
proof -
  have n: "username (exScoped ''carol'' 5 RoleAdmin) \<notin> set (players (exGame ready [''bob''] [''carol'']))"
    by (simp add: exScoped_def exGame_def)
  from leaveGame_pulls_from_players_only [OF exRawId_parse exAdminToken_verify exWorld_findOne] n
  have "leaveGame exConstants exAdminToken exRawId (exWorld [(5, exGame ready [''bob''] [''carol''])]) =
     (Inl (AssertionError ''No player removed''),
      (exWorld [(5, exGame ready [''bob''] [''carol''])])
        \<lparr>gameUpdates := gameUpdates (exWorld [(5, exGame ready [''bob''] [''carol''])]) @
           [(5, [PullPlayers (username (exScoped ''carol'' 5 RoleAdmin))])]\<rparr>)"
    by blast
  moreover have "gameUpdates (exWorld [(5, exGame ready [''bob''] [''carol''])]) = []"
    "gameColl (exWorld [(5, exGame ready [''bob''] [''carol''])]) =
       [(5, exGame ready [''bob''] [''carol''])]"
    by (simp_all add: exWorld_def)
  moreover have "username (exScoped ''carol'' 5 RoleAdmin) = ''carol''"
    by (simp add: exScoped_def)
  moreover have "admins (exGame ready [''bob''] [''carol'']) = [''carol'']"
    by (simp add: exGame_def)
  ultimately show ?thesis
    by (simp add: exAdminToken_verify)
qed

end
